theory Spec2Isabelle
  imports
    Complex_Main
    "HOL-Library.Char_ord"
    "HOL-Library.List_Lexorder"
    "HOL-Library.Product_Lexorder"
    "HOL-Library.Sublist"
begin

section \<open>Numbers of a pandas column\<close>

text \<open>
  A numeric cell of a DataFrame is a 64-bit float (or a 64-bit integer, which pandas turns
  into a float as soon as it is divided or averaged). The model keeps the three special
  values of IEEE arithmetic, which decide what happens at \<open>qty = 0\<close> and at a missing cell,
  and idealises the finite values as exact reals: rounding error, overflow and the sign of
  zero are not modelled. \<open>NaN\<close> is also what pandas stores for a missing cell.
\<close>

datatype fl = Fin real | PInf | NInf | NaN

fun fneg :: "fl \<Rightarrow> fl" where
  "fneg (Fin a) = Fin (- a)"
| "fneg PInf = NInf"
| "fneg NInf = PInf"
| "fneg NaN = NaN"

fun fadd :: "fl \<Rightarrow> fl \<Rightarrow> fl" where
  "fadd (Fin a) (Fin b) = Fin (a + b)"
| "fadd NaN _ = NaN"
| "fadd _ NaN = NaN"
| "fadd PInf NInf = NaN"
| "fadd NInf PInf = NaN"
| "fadd PInf _ = PInf"
| "fadd _ PInf = PInf"
| "fadd NInf _ = NInf"
| "fadd _ NInf = NInf"

definition fsub :: "fl \<Rightarrow> fl \<Rightarrow> fl" where
  "fsub a b = fadd a (fneg b)"

fun fmul :: "fl \<Rightarrow> fl \<Rightarrow> fl" where
  "fmul (Fin a) (Fin b) = Fin (a * b)"
| "fmul NaN _ = NaN"
| "fmul _ NaN = NaN"
| "fmul (Fin a) PInf = (if 0 < a then PInf else if a < 0 then NInf else NaN)"
| "fmul (Fin a) NInf = (if 0 < a then NInf else if a < 0 then PInf else NaN)"
| "fmul PInf (Fin b) = (if 0 < b then PInf else if b < 0 then NInf else NaN)"
| "fmul NInf (Fin b) = (if 0 < b then NInf else if b < 0 then PInf else NaN)"
| "fmul PInf PInf = PInf"
| "fmul PInf NInf = NInf"
| "fmul NInf PInf = NInf"
| "fmul NInf NInf = PInf"

text \<open>
  Division of two columns never raises: numpy divides elementwise, and a zero divisor gives
  an infinity with the sign of the dividend, or \<open>NaN\<close> for \<open>0 / 0\<close>.
\<close>

fun fdiv :: "fl \<Rightarrow> fl \<Rightarrow> fl" where
  "fdiv (Fin a) (Fin b) =
     (if b \<noteq> 0 then Fin (a / b)
      else if 0 < a then PInf else if a < 0 then NInf else NaN)"
| "fdiv NaN _ = NaN"
| "fdiv _ NaN = NaN"
| "fdiv (Fin a) PInf = Fin 0"
| "fdiv (Fin a) NInf = Fin 0"
| "fdiv PInf (Fin b) = (if 0 \<le> b then PInf else NInf)"
| "fdiv NInf (Fin b) = (if 0 \<le> b then NInf else PInf)"
| "fdiv PInf PInf = NaN"
| "fdiv PInf NInf = NaN"
| "fdiv NInf PInf = NaN"
| "fdiv NInf NInf = NaN"

fun fsqrt :: "fl \<Rightarrow> fl" where
  "fsqrt (Fin a) = (if a < 0 then NaN else Fin (sqrt a))"
| "fsqrt PInf = PInf"
| "fsqrt NInf = NaN"
| "fsqrt NaN = NaN"

text \<open>Comparisons: every comparison with \<open>NaN\<close> is false.\<close>

fun flt :: "fl \<Rightarrow> fl \<Rightarrow> bool" where
  "flt (Fin a) (Fin b) = (a < b)"
| "flt NaN _ = False"
| "flt _ NaN = False"
| "flt NInf NInf = False"
| "flt NInf _ = True"
| "flt _ NInf = False"
| "flt PInf _ = False"
| "flt _ PInf = True"

definition fgt :: "fl \<Rightarrow> fl \<Rightarrow> bool" where
  "fgt a b = flt b a"

text \<open>\<open>round(d)\<close>: numpy rounds the scaled value to the nearest integer, ties to even.\<close>

definition rint :: "real \<Rightarrow> int" where
  "rint x =
     (let f = \<lfloor>x\<rfloor>; d = x - of_int f
      in if d < 1 / 2 then f else if 1 / 2 < d then f + 1
         else if even f then f else f + 1)"

fun fround :: "nat \<Rightarrow> fl \<Rightarrow> fl" where
  "fround d (Fin x) = Fin (of_int (rint (x * 10 ^ d)) / 10 ^ d)"
| "fround d PInf = PInf"
| "fround d NInf = NInf"
| "fround d NaN = NaN"

subsection \<open>Reductions of a column\<close>

text \<open>All reductions of pandas skip missing values (\<open>skipna=True\<close>).\<close>

definition notna :: "fl \<Rightarrow> bool" where
  "notna x = (x \<noteq> NaN)"

fun fsum :: "fl list \<Rightarrow> fl" where
  "fsum [] = Fin 0"
| "fsum (x # xs) = fadd x (fsum xs)"

definition nansum :: "fl list \<Rightarrow> fl" where
  "nansum xs = fsum (filter notna xs)"

definition count :: "fl list \<Rightarrow> nat" where
  "count xs = length (filter notna xs)"

definition nanmean :: "fl list \<Rightarrow> fl" where
  "nanmean xs =
     (let ys = filter notna xs
      in if ys = [] then NaN else fdiv (fsum ys) (Fin (real (length ys))))"

text \<open>A total order on the values other than \<open>NaN\<close>, used to sort them.\<close>

fun fl_key :: "fl \<Rightarrow> int \<times> real" where
  "fl_key NInf = (-1, 0)"
| "fl_key (Fin a) = (0, a)"
| "fl_key PInf = (1, 0)"
| "fl_key NaN = (2, 0)"

definition nanmin :: "fl list \<Rightarrow> fl" where
  "nanmin xs = (case sort_key fl_key (filter notna xs) of [] \<Rightarrow> NaN | y # _ \<Rightarrow> y)"

definition nanmax :: "fl list \<Rightarrow> fl" where
  "nanmax xs = (case rev (sort_key fl_key (filter notna xs)) of [] \<Rightarrow> NaN | y # _ \<Rightarrow> y)"

text \<open>
  \<open>quantile(q)\<close> with the default linear interpolation: the value at position
  \<open>(n - 1) * q\<close> of the sorted values, interpolated between its two neighbours.
\<close>

definition quantile :: "real \<Rightarrow> fl list \<Rightarrow> fl" where
  "quantile q xs =
     (let ys = sort_key fl_key (filter notna xs); n = length ys
      in if n = 0 then NaN
         else let h = real (n - 1) * q; lo = nat \<lfloor>h\<rfloor>; hi = min (lo + 1) (n - 1);
                  g = h - real lo
              in fadd (ys ! lo) (fmul (fsub (ys ! hi) (ys ! lo)) (Fin g)))"

text \<open>Sample standard deviation (\<open>ddof = 1\<close>), as \<open>describe\<close> reports it.\<close>

definition nanstd :: "fl list \<Rightarrow> fl" where
  "nanstd xs =
     (let ys = filter notna xs; n = length ys
      in if n < 2 then NaN
         else let m = fdiv (fsum ys) (Fin (real n))
              in fsqrt (fdiv (fsum (map (\<lambda>y. fmul (fsub y m) (fsub y m)) ys))
                             (Fin (real (n - 1)))))"


section \<open>The DataFrame of sales records\<close>

subsection \<open>Dates\<close>

text \<open>
  A timestamp is a calendar date with the nanoseconds since midnight; comparing the
  components from the left is comparing the points in time. A cell of the date column is
  the text read from the CSV file, a timestamp once \<open>pd.to_datetime\<close> has converted it,
  or missing (\<open>NaT\<close>).
\<close>

type_synonym tstamp = "int \<times> nat \<times> nat \<times> nat"

datatype dcell = DNaT | DStr string | DTs tstamp

fun dcell_key :: "dcell \<Rightarrow> nat \<times> string \<times> tstamp" where
  "dcell_key DNaT = (0, [], (0, 0, 0, 0))"
| "dcell_key (DStr s) = (1, s, (0, 0, 0, 0))"
| "dcell_key (DTs t) = (2, [], t)"

instantiation dcell :: linorder
begin

definition less_eq_dcell :: "dcell \<Rightarrow> dcell \<Rightarrow> bool" where
  "less_eq_dcell a b = (dcell_key a \<le> dcell_key b)"

definition less_dcell :: "dcell \<Rightarrow> dcell \<Rightarrow> bool" where
  "less_dcell a b = (dcell_key a < dcell_key b)"

instance
proof
  fix x y z :: dcell
  show "(x < y) = (x \<le> y \<and> \<not> y \<le> x)"
    unfolding less_eq_dcell_def less_dcell_def by (rule less_le_not_le)
  show "x \<le> x"
    unfolding less_eq_dcell_def by simp
  show "x \<le> y \<Longrightarrow> y \<le> z \<Longrightarrow> x \<le> z"
    unfolding less_eq_dcell_def by (rule order_trans)
  show "x \<le> y \<Longrightarrow> y \<le> x \<Longrightarrow> x = y"
    unfolding less_eq_dcell_def by (cases x; cases y) auto
  show "x \<le> y \<or> y \<le> x"
    unfolding less_eq_dcell_def by (rule linear)
qed

end

text \<open>The calendar: days since 1970-01-01, the weekday and the ISO week of a date.\<close>

definition days_from_civil :: "int \<Rightarrow> nat \<Rightarrow> nat \<Rightarrow> int" where
  "days_from_civil y m d =
     (let y' = (if m \<le> 2 then y - 1 else y);
          era = y' div 400;
          yoe = y' - era * 400;
          mp = (if 2 < m then int m - 3 else int m + 9);
          doy = (153 * mp + 2) div 5 + int d - 1;
          doe = yoe * 365 + yoe div 4 - yoe div 100 + doy
      in era * 146097 + doe - 719468)"

definition weekday :: "tstamp \<Rightarrow> nat" where
  "weekday t = (case t of (y, m, d, _) \<Rightarrow> nat ((days_from_civil y m d + 3) mod 7))"

definition day_name :: "tstamp \<Rightarrow> string" where
  "day_name t =
     [''Monday'', ''Tuesday'', ''Wednesday'', ''Thursday'', ''Friday'', ''Saturday'',
      ''Sunday''] ! weekday t"

definition weeks_in_year :: "int \<Rightarrow> int" where
  "weeks_in_year y =
     (let p = (\<lambda>z. (z + z div 4 - z div 100 + z div 400) mod 7)
      in if p y = 4 \<or> p (y - 1) = 3 then 53 else 52)"

definition isoweek :: "tstamp \<Rightarrow> nat" where
  "isoweek t =
     (case t of (y, m, d, _) \<Rightarrow>
        let ordinal = days_from_civil y m d - days_from_civil y 1 1 + 1;
            w = (ordinal - (int (weekday t) + 1) + 10) div 7
        in if w < 1 then nat (weeks_in_year (y - 1))
           else if weeks_in_year y < w then 1 else nat w)"

subsection \<open>Rows, frames and the processor\<close>

text \<open>
  One row of the frame. The text columns are of object dtype: a cell is a string or
  missing. The first six fields are the columns of the input file, the last five are the
  columns \<open>_clean_data\<close> derives. Which columns the frame really has is recorded in
  \<open>columns\<close>; a field of a column that is absent is never read.
\<close>

record row =
  date :: dcell
  store :: "string option"
  menu_item :: "string option"
  revenue :: fl
  qty :: fl
  customer_segment :: "string option"
  is_outlier :: bool
  avg_price :: fl
  month :: "nat option"
  day_of_week :: "string option"
  week :: "nat option"

record frame =
  columns :: "string list"
  rows :: "row list"

datatype error = KeyError string | ValueError | AttributeError | ReError | IOError

definition add_column :: "string \<Rightarrow> frame \<Rightarrow> string list" where
  "add_column c f = (if c \<in> set (columns f) then columns f else columns f @ [c])"

text \<open>\<open>DataProcessor.data_summary\<close>; the dictionary's keys are the fields.\<close>

record summary =
  total_records :: nat
  date_range :: "(int \<times> nat \<times> nat) \<times> (int \<times> nat \<times> nat)"
  total_revenue :: fl
  total_qty_sold :: fl
  avg_transaction_value :: fl
  stores :: "string option list"
  customer_segments :: "string option list"
  unique_menu_items :: nat
  top_selling_items :: "(string \<times> fl) list"
  revenue_by_store :: "(string \<times> fl) list"
  revenue_by_segment :: "(string \<times> fl) list"

text \<open>
  The state of a \<open>DataProcessor\<close>: \<open>self.df\<close> (\<open>None\<close> until a table is loaded) and
  \<open>self.data_summary\<close> (\<open>None\<close> stands for the empty dictionary of \<open>__init__\<close>).
\<close>

record processor =
  df :: "frame option"
  data_summary :: "summary option"

definition init :: processor where
  "init = \<lparr>df = None, data_summary = None\<rparr>"

subsection \<open>Grouping\<close>

text \<open>
  \<open>groupby(key)\<close> with the defaults of pandas: the groups are the distinct keys in
  ascending order (\<open>sort=True\<close>), and a row whose key is missing belongs to no group
  (\<open>dropna=True\<close>).
\<close>

definition group_keys :: "('r \<Rightarrow> 'k option) \<Rightarrow> 'r list \<Rightarrow> ('k::linorder) list" where
  "group_keys kf rs = sort (remdups (List.map_filter kf rs))"

definition group_rows :: "('r \<Rightarrow> 'k option) \<Rightarrow> 'k \<Rightarrow> 'r list \<Rightarrow> 'r list" where
  "group_rows kf k rs = filter (\<lambda>r. kf r = Some k) rs"

text \<open>\<open>unique()\<close>: the distinct values in order of first appearance, a missing one included.\<close>

definition unique :: "'a list \<Rightarrow> 'a list" where
  "unique xs = rev (remdups (rev xs))"

text \<open>\<open>nunique()\<close>: the number of distinct values that are not missing.\<close>

definition nunique :: "'a option list \<Rightarrow> nat" where
  "nunique xs = length (remdups (List.map_filter id xs))"

text \<open>
  \<open>nlargest(n)\<close> and \<open>nsmallest(n)\<close> by a value: the first \<open>n\<close> in descending (ascending)
  order of the value, ties in their original order, \<open>NaN\<close> last.
\<close>

definition desc_key :: "fl \<Rightarrow> nat \<times> int \<times> real" where
  "desc_key x = (if x = NaN then (1, 0, 0) else (0, - fst (fl_key x), - snd (fl_key x)))"

definition nlargest :: "nat \<Rightarrow> ('a \<Rightarrow> fl) \<Rightarrow> 'a list \<Rightarrow> 'a list" where
  "nlargest n v xs = take n (sort_key (\<lambda>x. desc_key (v x)) xs)"

definition nsmallest :: "nat \<Rightarrow> ('a \<Rightarrow> fl) \<Rightarrow> 'a list \<Rightarrow> 'a list" where
  "nsmallest n v xs = take n (sort_key (\<lambda>x. fl_key (v x)) xs)"

definition date_key :: "row \<Rightarrow> dcell option" where
  "date_key r = (if date r = DNaT then None else Some (date r))"


section \<open>Loading: \<open>_clean_data\<close>, \<open>_generate_summary\<close>, \<open>load_dataset\<close>\<close>

text \<open>
  \<open>pd.to_datetime\<close> on the date column. How pandas reads a date from text is not part of
  the repository: \<open>parse\<close> stands for it, and \<open>None\<close> is a text it cannot read, at
  which the conversion of the whole column raises. A missing cell becomes \<open>NaT\<close> and a
  timestamp stays what it is.
\<close>

definition to_datetime :: "(string \<Rightarrow> tstamp option) \<Rightarrow> dcell \<Rightarrow> dcell option" where
  "to_datetime parse c = (case c of DStr s \<Rightarrow> map_option DTs (parse s) | _ \<Rightarrow> Some c)"

definition dt_month :: "dcell \<Rightarrow> nat option" where
  "dt_month c = (case c of DTs (y, m, d, n) \<Rightarrow> Some m | _ \<Rightarrow> None)"

definition dt_day_name :: "dcell \<Rightarrow> string option" where
  "dt_day_name c = (case c of DTs t \<Rightarrow> Some (day_name t) | _ \<Rightarrow> None)"

definition dt_week :: "dcell \<Rightarrow> nat option" where
  "dt_week c = (case c of DTs t \<Rightarrow> Some (isoweek t) | _ \<Rightarrow> None)"

text \<open>
  \<open>_clean_data\<close> assigns the columns of \<open>self.df\<close> one after the other, so an exception
  leaves in \<open>self.df\<close> the columns assigned before it. The result is the exception, if
  any, and the processor after the call.
\<close>

definition clean_data ::
  "(string \<Rightarrow> tstamp option) \<Rightarrow> processor \<Rightarrow> error option \<times> processor" where
  "clean_data parse st =
     (case df st of
        None \<Rightarrow> (None, st)
      | Some f \<Rightarrow>
          if ''date'' \<notin> set (columns f) then (Some (KeyError ''date''), st)
          else
            (case those (map (\<lambda>r. to_datetime parse (date r)) (rows f)) of
               None \<Rightarrow> (Some ValueError, st)
             | Some ds \<Rightarrow>
                 let f1 = f\<lparr>rows := map (\<lambda>(r, d). r\<lparr>date := d\<rparr>) (zip (rows f) ds)\<rparr>
                 in if ''revenue'' \<notin> set (columns f1)
                    then (Some (KeyError ''revenue''), st\<lparr>df := Some f1\<rparr>)
                    else
                      let Q1 = quantile 0.25 (map revenue (rows f1));
                          Q3 = quantile 0.75 (map revenue (rows f1));
                          IQR = fsub Q3 Q1;
                          lower_bound = fsub Q1 (fmul (Fin 1.5) IQR);
                          upper_bound = fadd Q3 (fmul (Fin 1.5) IQR);
                          f2 = f1\<lparr>columns := add_column ''is_outlier'' f1,
                                  rows := map (\<lambda>r. r\<lparr>is_outlier :=
                                            flt (revenue r) lower_bound \<or>
                                            fgt (revenue r) upper_bound\<rparr>) (rows f1)\<rparr>
                      in if ''qty'' \<notin> set (columns f2)
                         then (Some (KeyError ''qty''), st\<lparr>df := Some f2\<rparr>)
                         else
                           let f3 = f2\<lparr>columns := add_column ''avg_price'' f2,
                                       rows := map (\<lambda>r. r\<lparr>avg_price :=
                                                 fdiv (revenue r) (qty r)\<rparr>) (rows f2)\<rparr>;
                               f4 = f3\<lparr>columns := add_column ''month'' f3,
                                       rows := map (\<lambda>r. r\<lparr>month := dt_month (date r)\<rparr>)
                                                 (rows f3)\<rparr>;
                               f5 = f4\<lparr>columns := add_column ''day_of_week'' f4,
                                       rows := map (\<lambda>r. r\<lparr>day_of_week :=
                                                 dt_day_name (date r)\<rparr>) (rows f4)\<rparr>;
                               f6 = f5\<lparr>columns := add_column ''week'' f5,
                                       rows := map (\<lambda>r. r\<lparr>week := dt_week (date r)\<rparr>)
                                                 (rows f5)\<rparr>
                           in (None, st\<lparr>df := Some f6\<rparr>)))"

text \<open>The first of the columns \<open>cs\<close> that the frame lacks: \<open>df[c]\<close> raises \<open>KeyError\<close>.\<close>

fun require :: "string list \<Rightarrow> frame \<Rightarrow> error option" where
  "require [] f = None"
| "require (c # cs) f = (if c \<in> set (columns f) then require cs f else Some (KeyError c))"

text \<open>
  \<open>min().strftime('%Y-%m-%d')\<close> and the same of \<open>max()\<close>: \<open>NaT\<close>, the minimum of a
  column without a date, has no \<open>strftime\<close> (\<open>ValueError\<close>), nor has a string
  (\<open>AttributeError\<close>).
\<close>

definition strftime :: "tstamp \<Rightarrow> int \<times> nat \<times> nat" where
  "strftime t = (case t of (y, m, d, n) \<Rightarrow> (y, m, d))"

definition date_min_max ::
  "dcell list \<Rightarrow> error + ((int \<times> nat \<times> nat) \<times> (int \<times> nat \<times> nat))" where
  "date_min_max cs =
     (case sort (filter (\<lambda>c. c \<noteq> DNaT) cs) of
        [] \<Rightarrow> Inl ValueError
      | a # as \<Rightarrow>
          (case (a, last (a # as)) of
             (DTs x, DTs y) \<Rightarrow> Inr (strftime x, strftime y)
           | _ \<Rightarrow> Inl AttributeError))"

definition group_sums ::
  "(row \<Rightarrow> string option) \<Rightarrow> (row \<Rightarrow> fl) \<Rightarrow> row list \<Rightarrow> (string \<times> fl) list" where
  "group_sums kf v rs =
     map (\<lambda>k. (k, nansum (map v (group_rows kf k rs)))) (group_keys kf rs)"

definition build_summary :: "frame \<Rightarrow> error + summary" where
  "build_summary f =
     (if ''date'' \<notin> set (columns f) then Inl (KeyError ''date'')
      else
        (case date_min_max (map date (rows f)) of
           Inl e \<Rightarrow> Inl e
         | Inr dr \<Rightarrow>
             (case require [''revenue'', ''qty'', ''store'', ''customer_segment'',
                            ''menu_item''] f of
                Some e \<Rightarrow> Inl e
              | None \<Rightarrow>
                  Inr \<lparr>total_records = length (rows f),
                       date_range = dr,
                       total_revenue = nansum (map revenue (rows f)),
                       total_qty_sold = nansum (map qty (rows f)),
                       avg_transaction_value = nanmean (map revenue (rows f)),
                       stores = unique (map store (rows f)),
                       customer_segments = unique (map customer_segment (rows f)),
                       unique_menu_items = nunique (map menu_item (rows f)),
                       top_selling_items = nlargest 5 snd (group_sums menu_item qty (rows f)),
                       revenue_by_store = group_sums store revenue (rows f),
                       revenue_by_segment =
                         group_sums customer_segment revenue (rows f)\<rparr>)))"

text \<open>
  \<open>_generate_summary\<close> builds the whole dictionary before it assigns it, so an exception
  leaves \<open>self.data_summary\<close> as it was.
\<close>

definition generate_summary :: "processor \<Rightarrow> error option \<times> processor" where
  "generate_summary st =
     (case df st of
        None \<Rightarrow> (None, st)
      | Some f \<Rightarrow>
          (case build_summary f of
             Inl e \<Rightarrow> (Some e, st)
           | Inr s \<Rightarrow> (None, st\<lparr>data_summary := Some s\<rparr>)))"

text \<open>
  \<open>load_dataset\<close>. \<open>csv\<close> is what \<open>pd.read_csv(file_path)\<close> gives: an exception or the
  raw frame. The frame is stored in \<open>self.df\<close> before it is cleaned, and the \<open>except\<close>
  clause prints and re-raises, restoring nothing.
\<close>

definition load_dataset ::
  "(string \<Rightarrow> tstamp option) \<Rightarrow> processor \<Rightarrow> error + frame \<Rightarrow>
     (error + frame option) \<times> processor" where
  "load_dataset parse st csv =
     (case csv of
        Inl e \<Rightarrow> (Inl e, st)
      | Inr raw \<Rightarrow>
          (case clean_data parse (st\<lparr>df := Some raw\<rparr>) of
             (Some e, st2) \<Rightarrow> (Inl e, st2)
           | (None, st2) \<Rightarrow>
               (case generate_summary st2 of
                  (Some e, st3) \<Rightarrow> (Inl e, st3)
                | (None, st3) \<Rightarrow> (Inr (df st3), st3))))"


section \<open>The aggregations\<close>

text \<open>
  Every aggregation is a method of the processor: it returns its result (or the exception
  it raises) and the processor after the call. \<open>Inr None\<close> is the empty dictionary
  returned while no table is loaded. \<open>to_dict('records')\<close> is a list of records in the
  order of the frame.
\<close>

subsection \<open>\<open>get_sales_trends\<close>\<close>

record 'k trend =
  t_key :: 'k
  t_revenue :: fl
  t_qty :: fl

record trends =
  daily_trends :: "dcell trend list"
  monthly_trends :: "nat trend list"
  weekly_patterns :: "string trend list"

definition agg_sum :: "(row \<Rightarrow> 'k option) \<Rightarrow> row list \<Rightarrow> ('k::linorder) trend list" where
  "agg_sum kf rs =
     map (\<lambda>k. \<lparr>t_key = k,
               t_revenue = nansum (map revenue (group_rows kf k rs)),
               t_qty = nansum (map qty (group_rows kf k rs))\<rparr>) (group_keys kf rs)"

definition agg_mean :: "(row \<Rightarrow> 'k option) \<Rightarrow> row list \<Rightarrow> ('k::linorder) trend list" where
  "agg_mean kf rs =
     map (\<lambda>k. \<lparr>t_key = k,
               t_revenue = nanmean (map revenue (group_rows kf k rs)),
               t_qty = nanmean (map qty (group_rows kf k rs))\<rparr>) (group_keys kf rs)"

definition get_sales_trends :: "processor \<Rightarrow> (error + trends option) \<times> processor" where
  "get_sales_trends st =
     (case df st of
        None \<Rightarrow> (Inr None, st)
      | Some f \<Rightarrow>
          (case require [''date'', ''revenue'', ''qty'', ''month'', ''day_of_week''] f of
             Some e \<Rightarrow> (Inl e, st)
           | None \<Rightarrow>
               (Inr (Some \<lparr>daily_trends = agg_sum date_key (rows f),
                           monthly_trends = agg_sum month (rows f),
                           weekly_patterns = agg_mean day_of_week (rows f)\<rparr>), st)))"

subsection \<open>\<open>analyze_menu_performance\<close>\<close>

record menu_rec =
  m_menu_item :: string
  m_total_revenue :: fl
  m_avg_revenue :: fl
  m_frequency :: nat
  m_total_qty :: fl
  m_avg_price :: fl
  m_revenue_per_order :: fl
  m_popularity_score :: fl
  m_performance_category :: string

record menu_top =
  tp_menu_item :: string
  tp_total_revenue :: fl
  tp_total_qty :: fl

record menu_result =
  menu_performance :: "menu_rec list"
  top_performers :: "menu_top list"
  low_performers :: "menu_top list"

definition categorize_performance :: "fl list \<Rightarrow> fl \<Rightarrow> string" where
  "categorize_performance totals x =
     (if fgt x (quantile 0.8 totals) then ''High Performer''
      else if flt x (quantile 0.2 totals) then ''Low Performer''
      else ''Average'')"

definition menu_analysis :: "row list \<Rightarrow> menu_rec list" where
  "menu_analysis rs =
     (let ks = group_keys menu_item rs;
          total = (\<lambda>k. fround 2 (nansum (map revenue (group_rows menu_item k rs))));
          freq = (\<lambda>k. count (map revenue (group_rows menu_item k rs)));
          max_freq = nanmax (map (\<lambda>k. Fin (real (freq k))) ks);
          totals = map total ks
      in map (\<lambda>k. \<lparr>m_menu_item = k,
                    m_total_revenue = total k,
                    m_avg_revenue =
                      fround 2 (nanmean (map revenue (group_rows menu_item k rs))),
                    m_frequency = freq k,
                    m_total_qty = fround 2 (nansum (map qty (group_rows menu_item k rs))),
                    m_avg_price =
                      fround 2 (nanmean (map avg_price (group_rows menu_item k rs))),
                    m_revenue_per_order = fdiv (total k) (Fin (real (freq k))),
                    m_popularity_score =
                      fmul (fdiv (Fin (real (freq k))) max_freq) (Fin 100),
                    m_performance_category = categorize_performance totals (total k)\<rparr>)
           ks)"

definition top_of :: "menu_rec \<Rightarrow> menu_top" where
  "top_of m = \<lparr>tp_menu_item = m_menu_item m, tp_total_revenue = m_total_revenue m,
              tp_total_qty = m_total_qty m\<rparr>"

definition analyze_menu_performance ::
  "processor \<Rightarrow> (error + menu_result option) \<times> processor" where
  "analyze_menu_performance st =
     (case df st of
        None \<Rightarrow> (Inr None, st)
      | Some f \<Rightarrow>
          (case require [''menu_item'', ''revenue'', ''qty'', ''avg_price''] f of
             Some e \<Rightarrow> (Inl e, st)
           | None \<Rightarrow>
               (let ma = menu_analysis (rows f)
                in (Inr (Some \<lparr>menu_performance = ma,
                               top_performers = map top_of (nlargest 10 m_total_revenue ma),
                               low_performers =
                                 map top_of (nsmallest 5 m_total_revenue ma)\<rparr>), st))))"

subsection \<open>\<open>analyze_customer_segments\<close>\<close>

record segment_rec =
  s_customer_segment :: string
  s_total_revenue :: fl
  s_avg_revenue_per_transaction :: fl
  s_transaction_count :: nat
  s_total_qty :: fl
  s_avg_qty_per_transaction :: fl
  s_avg_price_per_item :: fl
  s_revenue_share :: fl
  s_customer_value :: fl

text \<open>One column of \<open>describe()\<close>: the statistics of \<open>avg_price\<close> within one segment.\<close>

record describe_rec =
  d_segment :: string
  d_count :: nat
  d_mean :: fl
  d_std :: fl
  d_min :: fl
  d_q25 :: fl
  d_q50 :: fl
  d_q75 :: fl
  d_max :: fl

record segment_result =
  segment_performance :: "segment_rec list"
  segment_comparison :: "describe_rec list"

definition segment_analysis :: "row list \<Rightarrow> segment_rec list" where
  "segment_analysis rs =
     (let grand_total = nansum (map revenue rs)
      in map (\<lambda>k.
            let g = group_rows customer_segment k rs;
                total = fround 2 (nansum (map revenue g));
                n = count (map revenue g)
            in \<lparr>s_customer_segment = k,
                s_total_revenue = total,
                s_avg_revenue_per_transaction = fround 2 (nanmean (map revenue g)),
                s_transaction_count = n,
                s_total_qty = fround 2 (nansum (map qty g)),
                s_avg_qty_per_transaction = fround 2 (nanmean (map qty g)),
                s_avg_price_per_item = fround 2 (nanmean (map avg_price g)),
                s_revenue_share = fround 2 (fmul (fdiv total grand_total) (Fin 100)),
                s_customer_value = fdiv total (Fin (real n))\<rparr>)
           (group_keys customer_segment rs))"

definition describe :: "string \<Rightarrow> fl list \<Rightarrow> describe_rec" where
  "describe k xs =
     \<lparr>d_segment = k, d_count = count xs, d_mean = nanmean xs, d_std = nanstd xs,
      d_min = nanmin xs, d_q25 = quantile 0.25 xs, d_q50 = quantile 0.5 xs,
      d_q75 = quantile 0.75 xs, d_max = nanmax xs\<rparr>"

definition analyze_customer_segments ::
  "processor \<Rightarrow> (error + segment_result option) \<times> processor" where
  "analyze_customer_segments st =
     (case df st of
        None \<Rightarrow> (Inr None, st)
      | Some f \<Rightarrow>
          (case require [''customer_segment'', ''revenue'', ''qty'', ''avg_price''] f of
             Some e \<Rightarrow> (Inl e, st)
           | None \<Rightarrow>
               (Inr (Some \<lparr>segment_performance = segment_analysis (rows f),
                           segment_comparison =
                             map (\<lambda>k. describe k
                                    (map avg_price (group_rows customer_segment k (rows f))))
                               (group_keys customer_segment (rows f))\<rparr>), st)))"

subsection \<open>\<open>analyze_store_performance\<close>\<close>

record store_rec =
  p_store :: string
  p_total_revenue :: fl
  p_avg_revenue_per_transaction :: fl
  p_transaction_count :: nat
  p_total_qty_sold :: fl
  p_avg_qty_per_transaction :: fl
  p_menu_variety :: nat
  p_revenue_per_day :: fl
  p_efficiency_score :: fl

record store_result =
  store_performance :: "store_rec list"
  store_popular_items :: "(string option \<times> (string \<times> fl) list) list"

definition store_analysis :: "row list \<Rightarrow> store_rec list" where
  "store_analysis rs =
     (let days = nunique (map date_key rs)
      in map (\<lambda>k.
            let g = group_rows store k rs;
                total = fround 2 (nansum (map revenue g));
                n = count (map revenue g)
            in \<lparr>p_store = k,
                p_total_revenue = total,
                p_avg_revenue_per_transaction = fround 2 (nanmean (map revenue g)),
                p_transaction_count = n,
                p_total_qty_sold = fround 2 (nansum (map qty g)),
                p_avg_qty_per_transaction = fround 2 (nanmean (map qty g)),
                p_menu_variety = nunique (map menu_item g),
                p_revenue_per_day = fdiv total (Fin (real days)),
                p_efficiency_score = fround 2 (fdiv total (Fin (real n)))\<rparr>)
           (group_keys store rs))"

text \<open>
  The loop over \<open>self.df['store'].unique()\<close>. The comparison \<open>self.df['store'] == store\<close>
  is false in every row when \<open>store\<close> is the missing value.
\<close>

definition popular_items :: "row list \<Rightarrow> (string option \<times> (string \<times> fl) list) list" where
  "popular_items rs =
     map (\<lambda>s. (s, nlargest 5 snd
                    (group_sums menu_item qty
                       (filter (\<lambda>r. s \<noteq> None \<and> store r = s) rs))))
       (unique (map store rs))"

definition analyze_store_performance ::
  "processor \<Rightarrow> (error + store_result option) \<times> processor" where
  "analyze_store_performance st =
     (case df st of
        None \<Rightarrow> (Inr None, st)
      | Some f \<Rightarrow>
          (case require [''store'', ''revenue'', ''qty'', ''menu_item'', ''date''] f of
             Some e \<Rightarrow> (Inl e, st)
           | None \<Rightarrow>
               (Inr (Some \<lparr>store_performance = store_analysis (rows f),
                           store_popular_items = popular_items (rows f)\<rparr>), st)))"


subsection \<open>\<open>get_correlation_analysis\<close>\<close>

text \<open>
  \<open>DataFrame.corr()\<close>: for each pair of columns, Pearson's coefficient over the rows where
  both values are finite; \<open>NaN\<close> when there is no such row or a variance is zero.
\<close>

definition finite_pairs :: "fl list \<Rightarrow> fl list \<Rightarrow> (real \<times> real) list" where
  "finite_pairs xs ys =
     List.map_filter (\<lambda>p. case p of (Fin a, Fin b) \<Rightarrow> Some (a, b) | _ \<Rightarrow> None) (zip xs ys)"

definition pearson :: "(real \<times> real) list \<Rightarrow> fl" where
  "pearson ps =
     (let n = length ps
      in if n = 0 then NaN
         else
           let mx = sum_list (map fst ps) / real n;
               my = sum_list (map snd ps) / real n;
               covxy = sum_list (map (\<lambda>(a, b). (a - mx) * (b - my)) ps);
               vx = sum_list (map (\<lambda>(a, b). (a - mx) * (a - mx)) ps);
               vy = sum_list (map (\<lambda>(a, b). (b - my) * (b - my)) ps);
               divisor = sqrt (vx * vy)
           in if divisor \<noteq> 0 then Fin (covxy / divisor) else NaN)"

definition numerical_cols :: "string list" where
  "numerical_cols = [''revenue'', ''qty'', ''avg_price'']"

definition num_col :: "string \<Rightarrow> row \<Rightarrow> fl" where
  "num_col c = (if c = ''revenue'' then revenue else if c = ''qty'' then qty else avg_price)"

definition corr :: "row list \<Rightarrow> string \<Rightarrow> string \<Rightarrow> fl" where
  "corr rs a b = pearson (finite_pairs (map (num_col a) rs) (map (num_col b) rs))"

type_synonym matrix = "(string \<times> (string \<times> fl) list) list"


record corr_result =
  correlation_matrix :: matrix
  price_qty_correlation :: fl
  price_revenue_correlation :: fl
  qty_revenue_correlation :: fl

definition corr_matrix :: "row list \<Rightarrow> matrix" where
  "corr_matrix rs =
     map (\<lambda>c. (c, map (\<lambda>r. (r, fround 3 (corr rs r c))) numerical_cols)) numerical_cols"

definition get_correlation_analysis ::
  "processor \<Rightarrow> (error + corr_result option) \<times> processor" where
  "get_correlation_analysis st =
     (case df st of
        None \<Rightarrow> (Inr None, st)
      | Some f \<Rightarrow>
          (case require numerical_cols f of
             Some e \<Rightarrow> (Inl e, st)
           | None \<Rightarrow>
               (Inr (Some \<lparr>correlation_matrix = corr_matrix (rows f),
                           price_qty_correlation =
                             fround 3 (corr (rows f) ''avg_price'' ''qty''),
                           price_revenue_correlation =
                             fround 3 (corr (rows f) ''avg_price'' ''revenue''),
                           qty_revenue_correlation =
                             fround 3 (corr (rows f) ''qty'' ''revenue'')\<rparr>), st)))"

subsection \<open>\<open>search_data\<close>\<close>

text \<open>
  \<open>str.lower()\<close>; the labels are modelled as ASCII text, where it changes the letters
  \<open>A\<close> to \<open>Z\<close> only.
\<close>

definition lower_char :: "char \<Rightarrow> char" where
  "lower_char c =
     (if CHR ''A'' \<le> c \<and> c \<le> CHR ''Z'' then char_of (of_char c + (32::nat)) else c)"

definition lower :: "string \<Rightarrow> string" where
  "lower s = map lower_char s"

text \<open>
  \<open>str.contains(query, na=False)\<close> reads the query as a regular expression (its default
  \<open>regex=True\<close>) and searches each cell for a match. The characters below are the operators
  of Python's \<open>re\<close>. Of the expressions, the model spells out those made of ordinary
  characters and dots (a dot matches any character but the newline), and those that start
  with a repetition operator, which \<open>re.compile\<close> rejects (\<open>nothing to repeat\<close>). What
  \<open>re\<close> does with every other expression is left to \<open>lib\<close>, with \<open>None\<close> for an expression
  it rejects.
\<close>

definition re_operators :: "char list" where
  "re_operators =
     [CHR ''^'', CHR ''$'', CHR ''*'', CHR ''+'', CHR ''?'', CHR ''{'', CHR ''}'', CHR ''['',
      CHR '']'', CHR 0x5C, CHR ''|'', CHR ''('', CHR '')'']"

fun match_here :: "string \<Rightarrow> string \<Rightarrow> bool" where
  "match_here [] s = True"
| "match_here (p # ps) [] = False"
| "match_here (p # ps) (c # cs) =
     ((if p = CHR ''.'' then c \<noteq> CHR 0x0A else p = c) \<and> match_here ps cs)"

fun match_anywhere :: "string \<Rightarrow> string \<Rightarrow> bool" where
  "match_anywhere p [] = match_here p []"
| "match_anywhere p (c # cs) = (match_here p (c # cs) \<or> match_anywhere p cs)"

definition re_compile ::
  "(string \<Rightarrow> (string \<Rightarrow> bool) option) \<Rightarrow> string \<Rightarrow> (string \<Rightarrow> bool) option" where
  "re_compile lib pat =
     (if list_all (\<lambda>c. c \<notin> set re_operators) pat then Some (match_anywhere pat)
      else
        (case pat of
           [] \<Rightarrow> lib pat
         | c # _ \<Rightarrow> if c \<in> set [CHR ''*'', CHR ''+'', CHR ''?''] then None else lib pat))"

definition contains :: "(string \<Rightarrow> bool) \<Rightarrow> string option \<Rightarrow> bool" where
  "contains m cell = (case cell of None \<Rightarrow> False | Some s \<Rightarrow> m (lower s))"

definition search_data ::
  "(string \<Rightarrow> (string \<Rightarrow> bool) option) \<Rightarrow> processor \<Rightarrow> string \<Rightarrow>
     (error + frame) \<times> processor" where
  "search_data lib st query =
     (case df st of
        None \<Rightarrow> (Inr \<lparr>columns = [], rows = []\<rparr>, st)
      | Some f \<Rightarrow>
          if ''menu_item'' \<notin> set (columns f) then (Inl (KeyError ''menu_item''), st)
          else
            (case re_compile lib (lower query) of
               None \<Rightarrow> (Inl ReError, st)
             | Some m \<Rightarrow>
                 (case require [''store'', ''customer_segment''] f of
                    Some e \<Rightarrow> (Inl e, st)
                  | None \<Rightarrow>
                      (Inr (f\<lparr>rows := filter (\<lambda>r. contains m (menu_item r) \<or>
                                                    contains m (store r) \<or>
                                                    contains m (customer_segment r))
                                          (rows f)\<rparr>), st))))"

section \<open>Tables the properties are about\<close>

text \<open>
  A normalized table is a frame as \<open>_clean_data\<close> leaves it: the six columns of the input
  and the five derived ones are there, and every date is a timestamp or missing.
\<close>

definition raw_columns :: "string list" where
  "raw_columns = [''date'', ''store'', ''menu_item'', ''revenue'', ''qty'', ''customer_segment'']"




text \<open>A row as \<open>pd.read_csv\<close> delivers it: the derived fields are not there yet.\<close>

definition raw_row ::
  "dcell \<Rightarrow> string option \<Rightarrow> string option \<Rightarrow> fl \<Rightarrow> fl \<Rightarrow> string option \<Rightarrow> row" where
  "raw_row d s m r q c =
     \<lparr>date = d, store = s, menu_item = m, revenue = r, qty = q, customer_segment = c,
      is_outlier = False, avg_price = NaN, month = None, day_of_week = None, week = None\<rparr>"

definition raw_frame :: "row list \<Rightarrow> frame" where
  "raw_frame rs = \<lparr>columns = raw_columns, rows = rs\<rparr>"

text \<open>The processor after \<open>self.df = raw; self._clean_data()\<close>, as the tests set it up.\<close>

definition cleaned :: "row list \<Rightarrow> processor" where
  "cleaned rs = snd (clean_data (\<lambda>s. None) (init\<lparr>df := Some (raw_frame rs)\<rparr>))"

text \<open>The three rows of the scenario of the specification.\<close>

definition scenario :: "row list" where
  "scenario =
     [raw_row (DTs (2024, 1, 15, 0)) (Some ''Store A'') (Some ''Nasi Goreng'')
        (Fin 85000) (Fin 5) (Some ''Regular''),
      raw_row (DTs (2024, 1, 15, 0)) (Some ''Store B'') (Some ''Ayam Bakar'')
        (Fin 78000) (Fin 4) (Some ''Premium''),
      raw_row (DTs (2024, 1, 16, 0)) (Some ''Store A'') (Some ''Es Teh'')
        (Fin 15000) (Fin 10) (Some ''Budget'')]"


section \<open>Words of the specification\<close>





definition round2 :: "real \<Rightarrow> real" where
  "round2 x = of_int (rint (x * 100)) / 100"








section \<open>Grouping and columns: basic facts\<close>










section \<open>Daily trends\<close>











section \<open>Search\<close>
















section \<open>Idempotence\<close>

text \<open>
  C9. Each of the six aggregations leaves the processor, and so the stored table, as it
  was, and a second call returns what the first returned.
\<close>

theorem aggregations_idempotent:
  "snd (get_sales_trends st) = st \<and>
   get_sales_trends (snd (get_sales_trends st)) = get_sales_trends st \<and>
   snd (analyze_menu_performance st) = st \<and>
   analyze_menu_performance (snd (analyze_menu_performance st)) = analyze_menu_performance st \<and>
   snd (analyze_customer_segments st) = st \<and>
   analyze_customer_segments (snd (analyze_customer_segments st)) =
     analyze_customer_segments st \<and>
   snd (analyze_store_performance st) = st \<and>
   analyze_store_performance (snd (analyze_store_performance st)) =
     analyze_store_performance st \<and>
   snd (get_correlation_analysis st) = st \<and>
   get_correlation_analysis (snd (get_correlation_analysis st)) = get_correlation_analysis st \<and>
   snd (search_data lib st q) = st \<and>
   search_data lib (snd (search_data lib st q)) q = search_data lib st q"
proof -
  have 1: "snd (get_sales_trends st) = st"
    by (simp add: get_sales_trends_def split: option.splits)
  have 2: "snd (analyze_menu_performance st) = st"
    by (simp add: analyze_menu_performance_def Let_def split: option.splits)
  have 3: "snd (analyze_customer_segments st) = st"
    by (simp add: analyze_customer_segments_def split: option.splits)
  have 4: "snd (analyze_store_performance st) = st"
    by (simp add: analyze_store_performance_def split: option.splits)
  have 5: "snd (get_correlation_analysis st) = st"
    by (simp add: get_correlation_analysis_def split: option.splits)
  have 6: "snd (search_data lib st q) = st"
    by (simp add: search_data_def split: option.splits)
  show ?thesis
    by (simp add: 1 2 3 4 5 6)
qed

theorem aggregations_idempotent_witness:
  "snd (get_sales_trends (cleaned scenario)) = cleaned scenario \<and>
   get_sales_trends (snd (get_sales_trends (cleaned scenario))) =
     get_sales_trends (cleaned scenario) \<and>
   snd (search_data (\<lambda>p. None) (cleaned scenario) ''teh'') = cleaned scenario \<and>
   search_data (\<lambda>p. None) (snd (search_data (\<lambda>p. None) (cleaned scenario) ''teh'')) ''teh'' =
     search_data (\<lambda>p. None) (cleaned scenario) ''teh''"
  using aggregations_idempotent [of "cleaned scenario" "\<lambda>p. None" "''teh''"] by simp

section \<open>Sums over groups\<close>
























lemma fround2: "fround 2 (Fin x) = Fin (round2 x)"
  by (simp add: round2_def)









section \<open>Correlation\<close>












section \<open>No data\<close>







end
